theory Spec2Isabelle
  imports Complex_Main
begin

section \<open>Python values and exceptions\<close>

text \<open>
  The services pass loosely typed dictionaries around (\<^verbatim>\<open>Dict[str, Any]\<close>). A value of
  such a dictionary is one of the JSON-like values below, a dictionary is a partial map
  from keys to values, and Python's truth test (\<^verbatim>\<open>if x\<close>, \<^verbatim>\<open>not x\<close>) is written
  out for each type it is applied to.
\<close>

datatype pyval = PNone | PBool bool | PInt int | PStr string

type_synonym pydict = "string \<rightharpoonup> pyval"

fun truthy :: "pyval \<Rightarrow> bool" where
  "truthy PNone = False"
| "truthy (PBool b) = b"
| "truthy (PInt i) = (i \<noteq> 0)"
| "truthy (PStr s) = (s \<noteq> [])"

text \<open>\<^verbatim>\<open>d.get(k, default)\<close>\<close>

definition dict_get :: "pydict \<Rightarrow> string \<Rightarrow> pyval \<Rightarrow> pyval" where
  "dict_get d k dflt = (case d k of None \<Rightarrow> dflt | Some v \<Rightarrow> v)"

text \<open>\<^verbatim>\<open>not x\<close> for an \<^verbatim>\<open>Optional[str]\<close>: true for \<^verbatim>\<open>None\<close> and for the empty string.\<close>

fun not_str :: "string option \<Rightarrow> bool" where
  "not_str None = True"
| "not_str (Some s) = (s = [])"

text \<open>\<^verbatim>\<open>not x\<close> for an \<^verbatim>\<open>Optional[Dict]\<close>: true for \<^verbatim>\<open>None\<close> and for the empty dictionary.\<close>

fun not_dict :: "pydict option \<Rightarrow> bool" where
  "not_dict None = True"
| "not_dict (Some d) = (d = Map.empty)"

text \<open>
  The exceptions (all instances of \<^verbatim>\<open>Exception\<close>) that the modelled code or the
  libraries it calls can raise. \<open>HTTPException status detail\<close> is FastAPI's.
\<close>

datatype py_exception =
    ZeroDivisionError
  | TypeError
  | KeyError
  | JWTError
  | APIError
  | HTTPException nat string

section \<open>Pagination (\<^verbatim>\<open>app/services/utils.py\<close>)\<close>

text \<open>The dictionary returned by \<^verbatim>\<open>calculate_pagination\<close>, one field per key.\<close>

record pagination =
  pg_total :: int
  pg_page :: int
  pg_per_page :: int
  pg_total_pages :: int
  pg_has_prev :: bool
  pg_has_next :: bool
  pg_page_range :: "int list"

text \<open>
  Python's \<^verbatim>\<open>//\<close> on integers is floor division, as \<open>div\<close> on \<open>int\<close> is, but it
  raises on a zero divisor. The division is only evaluated when \<^verbatim>\<open>total > 0\<close>
  (the parameter \<^verbatim>\<open>total\<close> is written \<open>total'\<close>, the name being taken in HOL).
  \<^verbatim>\<open>list(range(a, b + 1))\<close> is \<open>[a..b]\<close>.
\<close>

definition calculate_pagination :: "int \<Rightarrow> int \<Rightarrow> int \<Rightarrow> py_exception + pagination" where
  "calculate_pagination total' page per_page =
     (if total' > 0 \<and> per_page = 0 then Inl ZeroDivisionError
      else
        let total_pages = (if total' > 0 then (total' + per_page - 1) div per_page else 0);
            has_prev = (page > 1);
            has_next = (page < total_pages);
            start_page = max 1 (page - 2);
            end_page = min total_pages (start_page + 4);
            start_page = (if end_page - start_page < 4 then max 1 (end_page - 4) else start_page)
        in Inr \<lparr> pg_total = total',
                 pg_page = page,
                 pg_per_page = per_page,
                 pg_total_pages = total_pages,
                 pg_has_prev = has_prev,
                 pg_has_next = has_next,
                 pg_page_range = (if total_pages > 0 then [start_page..end_page] else []) \<rparr>)"

section \<open>Content sanitizer (\<^verbatim>\<open>app/services/utils.py\<close>)\<close>

text \<open>
  Both policies pass a falsy input (\<^verbatim>\<open>None\<close> or the empty string) through and hand
  everything else to \<^verbatim>\<open>bleach.clean\<close>, a third-party HTML parser and serializer that is
  not part of the repository. The call with its fixed keyword arguments is the parameter
  \<open>clean\<close>: \<^verbatim>\<open>bleach.clean(content, tags=ALLOWED_TAGS, attributes=ALLOWED_ATTRIBUTES, strip=True)\<close>
  for \<open>sanitize_html\<close> and \<^verbatim>\<open>bleach.clean(text, tags=[], strip=True)\<close> for \<open>sanitize_text\<close>.
\<close>

definition sanitize_html :: "(string \<Rightarrow> string) \<Rightarrow> string option \<Rightarrow> string option" where
  "sanitize_html clean content =
     (if not_str content then content else map_option clean content)"

definition sanitize_text :: "(string \<Rightarrow> string) \<Rightarrow> string option \<Rightarrow> string option" where
  "sanitize_text clean text = (if not_str text then text else map_option clean text)"

section \<open>CSRF validation (\<^verbatim>\<open>app/services/utils.py\<close>)\<close>

text \<open>
  \<^verbatim>\<open>secrets.compare_digest\<close> is \<^verbatim>\<open>hmac.compare_digest\<close> of the standard library. On two
  \<^verbatim>\<open>str\<close> arguments it compares them in constant time when both are ASCII only and
  raises \<^verbatim>\<open>TypeError\<close> otherwise. A character of a \<open>string\<close> is a byte here; the
  characters from 128 on stand for every non-ASCII code point.
\<close>

definition is_ascii :: "string \<Rightarrow> bool" where
  "is_ascii s = list_all (\<lambda>c. (of_char c :: nat) < 128) s"

definition compare_digest :: "string \<Rightarrow> string \<Rightarrow> py_exception + bool" where
  "compare_digest a b = (if is_ascii a \<and> is_ascii b then Inr (a = b) else Inl TypeError)"

definition verify_csrf_token :: "string option \<Rightarrow> string option \<Rightarrow> py_exception + bool" where
  "verify_csrf_token cookie_token form_token =
     (if not_str cookie_token \<or> not_str form_token then Inr False
      else case (cookie_token, form_token) of
             (Some a, Some b) \<Rightarrow> compare_digest a b
           | _ \<Rightarrow> Inr False)"

section \<open>Board permissions (\<^verbatim>\<open>app/services/board.py\<close>)\<close>

text \<open>
  A board and a user are dictionaries, the user possibly \<^verbatim>\<open>None\<close>. Both functions are
  annotated \<^verbatim>\<open>-> bool\<close> but return whatever \<^verbatim>\<open>user.get("is_admin", False)\<close> holds under
  the policy \<^verbatim>\<open>admin\<close>, so the result is a \<open>pyval\<close>; the callers only test its truth
  value. \<^verbatim>\<open>a and b\<close> is \<^verbatim>\<open>a\<close> when \<^verbatim>\<open>a\<close> is falsy and \<^verbatim>\<open>b\<close> otherwise.
\<close>

definition check_read_permission :: "pydict \<Rightarrow> pydict option \<Rightarrow> pyval" where
  "check_read_permission board user =
     (let can_read = dict_get board ''can_read'' (PStr ''all'') in
      if can_read = PStr ''all'' then PBool True
      else if can_read = PStr ''member'' then PBool (user \<noteq> None)
      else if can_read = PStr ''admin'' then
        (case user of
           None \<Rightarrow> PBool False
         | Some u \<Rightarrow> dict_get u ''is_admin'' (PBool False))
      else PBool False)"

definition check_write_permission :: "pydict \<Rightarrow> pydict option \<Rightarrow> pyval" where
  "check_write_permission board user =
     (case user of
        None \<Rightarrow> PBool False
      | Some u \<Rightarrow>
          if not_dict user then PBool False
          else
            let can_write = dict_get board ''can_write'' (PStr ''member'') in
            if can_write = PStr ''all'' then PBool True
            else if can_write = PStr ''member'' then PBool True
            else if can_write = PStr ''admin'' then dict_get u ''is_admin'' (PBool False)
            else PBool False)"

section \<open>Session identity resolver (\<^verbatim>\<open>app/services/auth.py\<close>)\<close>

text \<open>
  \<open>get_current_user\<close> reads the cookie \<^verbatim>\<open>access_token\<close>, decodes it and looks the subject up
  in the table \<^verbatim>\<open>users\<close>. The two library calls are parameters, each either raising or
  returning:
  \<^item> \<open>jwt_decode token\<close> is
    \<^verbatim>\<open>jwt.decode(token, JWT_SECRET, algorithms=[ALGORITHM], audience="authenticated")\<close>,
    which raises \<^verbatim>\<open>JWTError\<close> on a malformed or expired token and on a bad signature, and
    returns the claims otherwise;
  \<^item> \<open>users_single user_id\<close> is the \<^verbatim>\<open>data\<close> of
    \<^verbatim>\<open>supabase.table("users").select("*").eq("id", user_id).single().execute()\<close>.
  The result is \<open>Inl e\<close> when the exception \<open>e\<close> reaches the caller.
\<close>

definition get_current_user ::
  "(string \<Rightarrow> py_exception + pydict) \<Rightarrow> (pyval \<Rightarrow> py_exception + pydict option) \<Rightarrow>
   (string \<rightharpoonup> string) \<Rightarrow> py_exception + pydict option" where
  "get_current_user jwt_decode users_single cookies =
     (case cookies ''access_token'' of
        None \<Rightarrow> Inr None
      | Some token \<Rightarrow>
          if token = [] then Inr None
          else
            (case
               (case jwt_decode token of
                  Inl e \<Rightarrow> Inl e
                | Inr payload \<Rightarrow>
                    (let user_id = dict_get payload ''sub'' PNone in
                     if \<not> truthy user_id then Inr None
                     else
                       (case users_single user_id of
                          Inl e \<Rightarrow> Inl e
                        | Inr data \<Rightarrow> if not_dict data then Inr None else Inr data)))
             of
               Inr r \<Rightarrow> Inr r
             | Inl e \<Rightarrow> (if e = JWTError then Inr None else Inr None)))"

text \<open>
  Library behaviours to run \<open>get_current_user\<close> on: a decoder that accepts every token with
  the given claims, a decoder that rejects every token, a table \<^verbatim>\<open>users\<close> given by its
  rows, and a store whose every query fails.
\<close>

definition jwt_accept :: "pydict \<Rightarrow> string \<Rightarrow> py_exception + pydict" where
  "jwt_accept payload token = Inr payload"

definition jwt_reject :: "string \<Rightarrow> py_exception + pydict" where
  "jwt_reject token = Inl JWTError"

definition users_table :: "(pyval \<rightharpoonup> pydict) \<Rightarrow> pyval \<Rightarrow> py_exception + pydict option" where
  "users_table rows user_id = Inr (rows user_id)"

definition users_failing :: "pyval \<Rightarrow> py_exception + pydict option" where
  "users_failing user_id = Inl APIError"

section \<open>Comments (\<^verbatim>\<open>app/services/comment.py\<close>)\<close>

text \<open>
  The external store holds the tables \<^verbatim>\<open>posts\<close> and \<^verbatim>\<open>comments\<close>, each keyed by the
  primary key \<^verbatim>\<open>id\<close>; a row is a record of its other columns.
\<close>

record post_row =
  post_board_id :: string
  post_user_id :: string
  post_title :: string
  post_content :: "string option"
  post_view_count :: int
  post_is_pinned :: bool
  post_is_active :: bool

record comment_row =
  comment_post_id :: string
  comment_user_id :: pyval
  comment_parent_id :: "string option"
  comment_content :: "string option"
  comment_is_active :: bool
  comment_created_at :: string
  comment_updated_at :: string

record store =
  posts :: "string \<rightharpoonup> post_row"
  comments :: "string \<rightharpoonup> comment_row"

text \<open>The comment that \<open>create_comment\<close> returns: the inserted row with its author and replies.\<close>

record created_comment =
  cc_id :: string
  cc_row :: comment_row
  cc_author :: pydict
  cc_replies :: "comment_row list"

text \<open>\<^verbatim>\<open>.eq("id", i).eq("is_active", True)\<close> on either table: at most one row.\<close>

definition active_post :: "store \<Rightarrow> string \<Rightarrow> post_row option" where
  "active_post s i =
     (case posts s i of None \<Rightarrow> None | Some p \<Rightarrow> if post_is_active p then Some p else None)"

definition active_comment :: "store \<Rightarrow> string \<Rightarrow> comment_row option" where
  "active_comment s i =
     (case comments s i of None \<Rightarrow> None | Some c \<Rightarrow> if comment_is_active c then Some c else None)"

text \<open>
  \<^verbatim>\<open>.single().execute()\<close> returns the one matching row. Without a matching row the store
  client raises \<^verbatim>\<open>APIError\<close>, while the code also provides for a response without data;
  \<open>strict\<close> says which of the two the store does.
\<close>

definition single :: "bool \<Rightarrow> 'a option \<Rightarrow> py_exception + 'a option" where
  "single strict row =
     (case row of
        Some r \<Rightarrow> Inr (Some r)
      | None \<Rightarrow> if strict then Inl APIError else Inr None)"

text \<open>The check of the parent comment (\<^verbatim>\<open>if parent_id: ...\<close>).\<close>

definition check_parent :: "bool \<Rightarrow> store \<Rightarrow> string option \<Rightarrow> py_exception + unit" where
  "check_parent strict s parent_id =
     (case parent_id of
        None \<Rightarrow> Inr ()
      | Some pid \<Rightarrow>
          if pid = [] then Inr ()
          else
            (case single strict (active_comment s pid) of
               Inl e \<Rightarrow> Inl e
             | Inr None \<Rightarrow> Inl (HTTPException 404 ''Parent comment not found or deleted'')
             | Inr (Some parent) \<Rightarrow>
                 if comment_parent_id parent \<noteq> None
                 then Inl (HTTPException 400 ''Cannot reply to a reply (max 2 levels)'')
                 else Inr ()))"

text \<open>
  The body of the \<^verbatim>\<open>try\<close> block. \<open>now\<close> is the current time as text, \<open>new_id\<close> the key
  the store gives the new row (an insert under a key that exists fails in the store), and
  \<open>clean\<close> the call of \<^verbatim>\<open>bleach.clean\<close> in \<open>sanitize_text\<close>.
\<close>

definition create_comment_try ::
  "bool \<Rightarrow> (string \<Rightarrow> string) \<Rightarrow> string \<Rightarrow> string \<Rightarrow> store \<Rightarrow>
   string \<Rightarrow> pydict \<Rightarrow> string \<Rightarrow> string option \<Rightarrow> (py_exception + created_comment) \<times> store" where
  "create_comment_try strict clean now new_id s post_id user content parent_id =
     (case single strict (active_post s post_id) of
        Inl e \<Rightarrow> (Inl e, s)
      | Inr None \<Rightarrow> (Inl (HTTPException 404 ''Post not found''), s)
      | Inr (Some post) \<Rightarrow>
          (case check_parent strict s parent_id of
             Inl e \<Rightarrow> (Inl e, s)
           | Inr _ \<Rightarrow>
               (let sanitized_content = sanitize_text clean (Some content) in
                case user ''id'' of
                  None \<Rightarrow> (Inl KeyError, s)
                | Some user_id \<Rightarrow>
                    (let comment_data =
                           \<lparr> comment_post_id = post_id,
                             comment_user_id = user_id,
                             comment_parent_id = parent_id,
                             comment_content = sanitized_content,
                             comment_is_active = True,
                             comment_created_at = now,
                             comment_updated_at = now \<rparr>
                     in if comments s new_id \<noteq> None then (Inl APIError, s)
                        else
                          (Inr \<lparr> cc_id = new_id,
                                 cc_row = comment_data,
                                 cc_author =
                                   [''id'' \<mapsto> user_id,
                                    ''username'' \<mapsto> dict_get user ''username'' (PStr ''Unknown''),
                                    ''email'' \<mapsto> dict_get user ''email'' (PStr [])],
                                 cc_replies = [] \<rparr>,
                           s\<lparr>comments := (comments s)(new_id \<mapsto> comment_data)\<rparr>)))))"

text \<open>
  The handlers: an \<^verbatim>\<open>HTTPException\<close> is raised again as it is, any other exception
  becomes the status 500.
\<close>

definition create_comment ::
  "bool \<Rightarrow> (string \<Rightarrow> string) \<Rightarrow> string \<Rightarrow> string \<Rightarrow> store \<Rightarrow>
   string \<Rightarrow> pydict \<Rightarrow> string \<Rightarrow> string option \<Rightarrow> (py_exception + created_comment) \<times> store" where
  "create_comment strict clean now new_id s post_id user content parent_id =
     (case create_comment_try strict clean now new_id s post_id user content parent_id of
        (Inl (HTTPException st detail), s') \<Rightarrow> (Inl (HTTPException st detail), s')
      | (Inl e, s') \<Rightarrow> (Inl (HTTPException 500 ''Failed to create comment''), s')
      | (Inr comment, s') \<Rightarrow> (Inr comment, s'))"

section \<open>Properties of the pagination\<close>

lemma ceil_div:
  fixes a b :: int
  assumes "0 < b"
  shows "(a + b - 1) div b = \<lceil>real_of_int a / real_of_int b\<rceil>"
proof -
  define q where "q = (a + b - 1) div b"
  define r where "r = (a + b - 1) mod b"
  have split: "a + b - 1 = q * b + r"
    by (simp add: q_def r_def)
  have r0: "0 \<le> r" and rb: "r < b"
    using assms by (simp_all add: r_def)
  have lo: "(q - 1) * b < a"
    using split r0 by (simp add: algebra_simps)
  have hi: "a \<le> q * b"
    using split rb by (simp add: algebra_simps)
  have "real_of_int (q - 1) * real_of_int b < real_of_int a"
    using lo by (metis of_int_less_iff of_int_mult)
  then have lo': "real_of_int q - 1 < real_of_int a / real_of_int b"
    using assms by (simp add: pos_less_divide_eq)
  have "real_of_int a \<le> real_of_int q * real_of_int b"
    using hi by (metis of_int_le_iff of_int_mult)
  then have hi': "real_of_int a / real_of_int b \<le> real_of_int q"
    using assms by (simp add: pos_divide_le_eq)
  show ?thesis
    unfolding q_def[symmetric] using lo' hi' by (simp add: ceiling_unique)
qed

lemma total_pages_ceiling:
  assumes "0 \<le> t" "1 \<le> pp"
  shows "(if t > 0 then (t + pp - 1) div pp else 0) = \<lceil>real_of_int t / real_of_int pp\<rceil>"
  using assms ceil_div[of pp t] by (cases "t = 0") auto



text \<open>
  Claim C5. For \<open>total \<ge> 0\<close>, \<open>page \<ge> 1\<close> and \<open>per_page \<ge> 1\<close>, \<open>calculate_pagination\<close>
  returns (it does not raise), and in what it returns: \<open>total_pages\<close> is the ceiling of
  \<open>total / per_page\<close>, zero exactly when \<open>total\<close> is zero; \<open>has_prev\<close> is \<open>page > 1\<close>;
  \<open>has_next\<close> is \<open>page < total_pages\<close>; \<open>page_range\<close> is a run \<open>[s..s + min 5 total_pages - 1]\<close>
  of consecutive ascending page numbers, of exactly \<open>min 5 total_pages\<close> entries, all within
  \<open>[1, total_pages]\<close> whatever the requested page is, empty exactly when \<open>total_pages\<close> is
  zero, and containing \<open>page\<close> whenever \<open>page \<le> total_pages\<close>.
\<close>

theorem calculate_pagination_contract:
  assumes "0 \<le> total'" and "1 \<le> page" and "1 \<le> per_page"
  shows "\<exists>r. calculate_pagination total' page per_page = Inr r
           \<and> pg_total_pages r = \<lceil>real_of_int total' / real_of_int per_page\<rceil>
           \<and> (pg_total_pages r = 0) = (total' = 0)
           \<and> pg_has_prev r = (page > 1)
           \<and> pg_has_next r = (page < pg_total_pages r)
           \<and> (\<exists>s. pg_page_range r = [s..s + min 5 (pg_total_pages r) - 1])
           \<and> length (pg_page_range r) = nat (min 5 (pg_total_pages r))
           \<and> (\<forall>p \<in> set (pg_page_range r). 1 \<le> p \<and> p \<le> pg_total_pages r)
           \<and> (page \<le> pg_total_pages r \<longrightarrow> page \<in> set (pg_page_range r))
           \<and> (pg_page_range r = []) = (pg_total_pages r = 0)"
proof -
  define tp where "tp = (if total' > 0 then (total' + per_page - 1) div per_page else 0)"
  define s0 where "s0 = max 1 (page - 2)"
  define e where "e = min tp (s0 + 4)"
  define s where "s = (if e - s0 < 4 then max 1 (e - 4) else s0)"
  define r where "r = \<lparr> pg_total = total', pg_page = page, pg_per_page = per_page,
      pg_total_pages = tp, pg_has_prev = (page > 1), pg_has_next = (page < tp),
      pg_page_range = (if tp > 0 then [s..e] else []) \<rparr>"
  have run: "calculate_pagination total' page per_page = Inr r"
    using assms(3) by (simp add: calculate_pagination_def Let_def r_def tp_def s0_def e_def s_def)
  have ceil: "tp = \<lceil>real_of_int total' / real_of_int per_page\<rceil>"
    unfolding tp_def using total_pages_ceiling[OF assms(1) assms(3)] .
  have tp_nonneg: "0 \<le> tp"
    using assms(1) assms(3) by (simp add: tp_def pos_imp_zdiv_nonneg_iff)
  have tp_zero: "(tp = 0) = (total' = 0)"
  proof (cases "total' = 0")
    case True
    then show ?thesis by (simp add: tp_def)
  next
    case False
    with assms(1) have pos: "0 < total'" by simp
    have "per_page \<le> total' + per_page - 1" using pos by simp
    then have "0 < (total' + per_page - 1) div per_page"
      using assms(3) pos_imp_zdiv_pos_iff[of per_page "total' + per_page - 1"] by simp
    then show ?thesis using pos by (simp add: tp_def)
  qed
  have len: "0 < tp \<Longrightarrow> e = s + min 5 tp - 1"
    using assms(2) by (auto simp: s_def e_def s0_def max_def min_def split: if_splits)
  have lo: "0 < tp \<Longrightarrow> 1 \<le> s"
    by (auto simp: s_def s0_def max_def)
  have hi: "e \<le> tp"
    by (simp add: e_def)
  have inside: "page \<le> tp \<Longrightarrow> s \<le> page \<and> page \<le> e"
    using assms(2) by (auto simp: s_def e_def s0_def max_def min_def split: if_splits)
  have range: "pg_page_range r = [s..s + min 5 tp - 1]"
  proof (cases "0 < tp")
    case True
    then show ?thesis using len by (simp add: r_def)
  next
    case False
    then have "tp = 0" using tp_nonneg by simp
    then show ?thesis by (simp add: r_def)
  qed
  have length_range: "length (pg_page_range r) = nat (min 5 tp)"
    using tp_nonneg by (simp add: range)
  have bounds: "\<forall>p \<in> set (pg_page_range r). 1 \<le> p \<and> p \<le> tp"
    using lo hi by (auto simp: r_def)
  have member: "page \<le> tp \<longrightarrow> page \<in> set (pg_page_range r)"
    using inside assms(2) by (auto simp: r_def)
  have empty: "(pg_page_range r = []) = (tp = 0)"
    using length_range tp_nonneg by (cases "tp = 0") (auto simp: min_def split: if_splits)
  have fields: "pg_total_pages r = tp" "pg_has_prev r = (page > 1)" "pg_has_next r = (page < tp)"
    by (simp_all add: r_def)
  show ?thesis
  proof (intro exI[of _ r] conjI)
    show "calculate_pagination total' page per_page = Inr r" by (rule run)
    show "pg_total_pages r = \<lceil>real_of_int total' / real_of_int per_page\<rceil>"
      unfolding fields by (rule ceil)
    show "(pg_total_pages r = 0) = (total' = 0)"
      unfolding fields by (rule tp_zero)
    show "pg_has_prev r = (page > 1)" by (rule fields)
    show "pg_has_next r = (page < pg_total_pages r)"
      unfolding fields(1) by (rule fields)
    show "\<exists>s. pg_page_range r = [s..s + min 5 (pg_total_pages r) - 1]"
      unfolding fields using range by (rule exI)
    show "length (pg_page_range r) = nat (min 5 (pg_total_pages r))"
      unfolding fields by (rule length_range)
    show "\<forall>p \<in> set (pg_page_range r). 1 \<le> p \<and> p \<le> pg_total_pages r"
      unfolding fields by (rule bounds)
    show "page \<le> pg_total_pages r \<longrightarrow> page \<in> set (pg_page_range r)"
      unfolding fields by (rule member)
    show "(pg_page_range r = []) = (pg_total_pages r = 0)"
      unfolding fields by (rule empty)
  qed
qed

theorem calculate_pagination_contract_witness:
  "\<exists>r. calculate_pagination 200 5 20 = Inr r
           \<and> pg_total_pages r = \<lceil>real_of_int 200 / real_of_int 20\<rceil>
           \<and> (pg_total_pages r = 0) = ((200::int) = 0)
           \<and> pg_has_prev r = ((5::int) > 1)
           \<and> pg_has_next r = (5 < pg_total_pages r)
           \<and> (\<exists>s. pg_page_range r = [s..s + min 5 (pg_total_pages r) - 1])
           \<and> length (pg_page_range r) = nat (min 5 (pg_total_pages r))
           \<and> (\<forall>p \<in> set (pg_page_range r). 1 \<le> p \<and> p \<le> pg_total_pages r)
           \<and> (5 \<le> pg_total_pages r \<longrightarrow> 5 \<in> set (pg_page_range r))
           \<and> (pg_page_range r = []) = (pg_total_pages r = 0)"
  by (rule calculate_pagination_contract[of 200 5 20]) simp_all

text \<open>
  Claim C1, as stated, fails: with no items and page 2 requested, \<open>has_prev\<close> is true.
\<close>

theorem calculate_pagination_empty_has_prev:
  "calculate_pagination 0 2 20 =
     Inr \<lparr> pg_total = 0, pg_page = 2, pg_per_page = 20, pg_total_pages = 0,
           pg_has_prev = True, pg_has_next = False, pg_page_range = [] \<rparr>"
  by (simp add: calculate_pagination_def)

text \<open>
  Claim C1, amended. With \<open>total = 0\<close>, every page \<open>p \<ge> 1\<close> and every \<open>per_page \<ge> 1\<close>,
  \<open>calculate_pagination\<close> returns \<open>total_pages = 0\<close>, \<open>page_range = []\<close> and
  \<open>has_next = False\<close>, while \<open>has_prev\<close> is \<open>p > 1\<close>: false on page 1 only.
\<close>

theorem calculate_pagination_empty:
  assumes "1 \<le> page" and "1 \<le> per_page"
  shows "calculate_pagination 0 page per_page =
     Inr \<lparr> pg_total = 0, pg_page = page, pg_per_page = per_page, pg_total_pages = 0,
           pg_has_prev = (page > 1), pg_has_next = False, pg_page_range = [] \<rparr>"
  using assms by (simp add: calculate_pagination_def)

theorem calculate_pagination_empty_witness:
  "(1::int) \<le> 3 \<and> (1::int) \<le> 20 \<and> calculate_pagination 0 3 20 =
     Inr \<lparr> pg_total = 0, pg_page = 3, pg_per_page = 20, pg_total_pages = 0,
           pg_has_prev = True, pg_has_next = False, pg_page_range = [] \<rparr>"
  using calculate_pagination_empty[of 3 20] by simp

section \<open>Properties of the CSRF validation\<close>

lemma verify_csrf_token_falsy:
  "not_str cookie_token \<or> not_str form_token \<Longrightarrow>
   verify_csrf_token cookie_token form_token = Inr False"
  by (simp add: verify_csrf_token_def)

lemma verify_csrf_token_both:
  "a \<noteq> [] \<Longrightarrow> b \<noteq> [] \<Longrightarrow> verify_csrf_token (Some a) (Some b) = compare_digest a b"
  by (simp add: verify_csrf_token_def)

text \<open>
  Claim C6, as stated, fails: two empty tokens are both present and byte-for-byte equal,
  and the result is false.
\<close>

theorem verify_csrf_token_empty_tokens:
  "verify_csrf_token (Some '''') (Some '''') = Inr False"
  by (simp add: verify_csrf_token_def)

text \<open>
  Claim C6, amended. \<open>verify_csrf_token\<close> returns true if and only if both values are
  present, non-empty, ASCII only and equal. An absent or empty value on either side always
  yields false, never an exception. The only exception is the \<^verbatim>\<open>TypeError\<close> of
  \<^verbatim>\<open>compare_digest\<close>, raised exactly when both values are non-empty and one of them has a
  non-ASCII character.
\<close>

theorem verify_csrf_token_true_iff:
  "(verify_csrf_token cookie_token form_token = Inr True) =
     (\<exists>t. cookie_token = Some t \<and> form_token = Some t \<and> t \<noteq> [] \<and> is_ascii t)
   \<and> verify_csrf_token None form_token = Inr False
   \<and> verify_csrf_token cookie_token None = Inr False
   \<and> verify_csrf_token (Some []) form_token = Inr False
   \<and> verify_csrf_token cookie_token (Some []) = Inr False
   \<and> (verify_csrf_token cookie_token form_token = Inl e) =
       (e = TypeError \<and>
        (\<exists>a b. cookie_token = Some a \<and> form_token = Some b \<and> a \<noteq> [] \<and> b \<noteq> []
               \<and> \<not> (is_ascii a \<and> is_ascii b)))"
proof (intro conjI)
  show "(verify_csrf_token cookie_token form_token = Inr True) =
     (\<exists>t. cookie_token = Some t \<and> form_token = Some t \<and> t \<noteq> [] \<and> is_ascii t)"
  proof (cases "not_str cookie_token \<or> not_str form_token")
    case True
    then have "verify_csrf_token cookie_token form_token = Inr False"
      by (rule verify_csrf_token_falsy)
    moreover have "\<not> (\<exists>t. cookie_token = Some t \<and> form_token = Some t \<and> t \<noteq> [] \<and> is_ascii t)"
      using True by auto
    ultimately show ?thesis by simp
  next
    case False
    then obtain a b where ab: "cookie_token = Some a" "form_token = Some b" "a \<noteq> []" "b \<noteq> []"
      by (cases cookie_token; cases form_token) auto
    then show ?thesis
      by (auto simp: verify_csrf_token_both compare_digest_def)
  qed
  show "(verify_csrf_token cookie_token form_token = Inl e) =
       (e = TypeError \<and>
        (\<exists>a b. cookie_token = Some a \<and> form_token = Some b \<and> a \<noteq> [] \<and> b \<noteq> []
               \<and> \<not> (is_ascii a \<and> is_ascii b)))"
  proof (cases "not_str cookie_token \<or> not_str form_token")
    case True
    then have "verify_csrf_token cookie_token form_token = Inr False"
      by (rule verify_csrf_token_falsy)
    moreover have "\<not> (\<exists>a b. cookie_token = Some a \<and> form_token = Some b \<and> a \<noteq> [] \<and> b \<noteq> []
               \<and> \<not> (is_ascii a \<and> is_ascii b))"
      using True by auto
    ultimately show ?thesis by simp
  next
    case False
    then obtain a b where ab: "cookie_token = Some a" "form_token = Some b" "a \<noteq> []" "b \<noteq> []"
      by (cases cookie_token; cases form_token) auto
    then show ?thesis
      by (auto simp: verify_csrf_token_both compare_digest_def)
  qed
qed (simp_all add: verify_csrf_token_def)

section \<open>Properties of the board permissions\<close>

text \<open>
  An identity is what the session resolver returns for a request: a user record, which is
  never the empty dictionary.
\<close>

lemma get_current_user_identity_nonempty:
  "get_current_user jwt_decode users_single cookies = Inr (Some u) \<Longrightarrow> u \<noteq> Map.empty"
  by (auto simp: get_current_user_def Let_def split: option.splits if_splits sum.splits)

text \<open>
  Claim C3. For every board and every user, present or not: under the read policy
  \<^verbatim>\<open>all\<close> the result is true; under \<^verbatim>\<open>member\<close> it is true exactly when a user is present;
  under \<^verbatim>\<open>admin\<close> it is true (truthy) exactly when a user is present whose admin flag
  \<^verbatim>\<open>user.get("is_admin", False)\<close> is set; under every other value of the policy it is false.
\<close>

theorem check_read_permission_policy:
  "(board ''can_read'' = Some (PStr ''all'') \<longrightarrow> check_read_permission board user = PBool True)
   \<and> (board ''can_read'' = Some (PStr ''member'') \<longrightarrow>
        check_read_permission board user = PBool (user \<noteq> None))
   \<and> (board ''can_read'' = Some (PStr ''admin'') \<longrightarrow>
        truthy (check_read_permission board user) =
          (\<exists>u. user = Some u \<and> truthy (dict_get u ''is_admin'' (PBool False))))
   \<and> (\<forall>v. board ''can_read'' = Some v \<and> v \<noteq> PStr ''all'' \<and> v \<noteq> PStr ''member''
            \<and> v \<noteq> PStr ''admin'' \<longrightarrow>
          check_read_permission board user = PBool False)"
  by (cases user) (auto simp: check_read_permission_def dict_get_def)

theorem check_read_permission_policy_witness:
  "check_read_permission [''can_read'' \<mapsto> PStr ''all''] None = PBool True
   \<and> check_read_permission [''can_read'' \<mapsto> PStr ''member''] None = PBool False
   \<and> check_read_permission [''can_read'' \<mapsto> PStr ''member'']
        (Some [''id'' \<mapsto> PStr ''u1'', ''is_admin'' \<mapsto> PBool False]) = PBool True
   \<and> truthy (check_read_permission [''can_read'' \<mapsto> PStr ''admin'']
        (Some [''id'' \<mapsto> PStr ''u2'', ''is_admin'' \<mapsto> PBool True]))
   \<and> \<not> truthy (check_read_permission [''can_read'' \<mapsto> PStr ''admin'']
        (Some [''id'' \<mapsto> PStr ''u1'', ''is_admin'' \<mapsto> PBool False]))
   \<and> check_read_permission [''can_read'' \<mapsto> PStr ''nobody'']
        (Some [''id'' \<mapsto> PStr ''u2'', ''is_admin'' \<mapsto> PBool True]) = PBool False"
  using
    check_read_permission_policy [of "[''can_read'' \<mapsto> PStr ''all'']" None]
    check_read_permission_policy [of "[''can_read'' \<mapsto> PStr ''member'']" None]
    check_read_permission_policy [of "[''can_read'' \<mapsto> PStr ''member'']"
      "Some [''id'' \<mapsto> PStr ''u1'', ''is_admin'' \<mapsto> PBool False]"]
    check_read_permission_policy [of "[''can_read'' \<mapsto> PStr ''admin'']"
      "Some [''id'' \<mapsto> PStr ''u2'', ''is_admin'' \<mapsto> PBool True]"]
    check_read_permission_policy [of "[''can_read'' \<mapsto> PStr ''admin'']"
      "Some [''id'' \<mapsto> PStr ''u1'', ''is_admin'' \<mapsto> PBool False]"]
    check_read_permission_policy [of "[''can_read'' \<mapsto> PStr ''nobody'']"
      "Some [''id'' \<mapsto> PStr ''u2'', ''is_admin'' \<mapsto> PBool True]"]
  by (simp add: dict_get_def)

text \<open>
  Claim C2. For every board, whatever its write policy is, the result without an identity
  is false. With an identity, a user record \<open>u\<close> (never the empty dictionary, which the
  test \<^verbatim>\<open>if not user\<close> takes for no identity), the policies \<^verbatim>\<open>all\<close> and \<^verbatim>\<open>member\<close> give true, and the policy
  \<^verbatim>\<open>admin\<close> gives true (truthy) exactly when the admin flag
  \<^verbatim>\<open>user.get("is_admin", False)\<close> of \<open>u\<close> is set.
\<close>

theorem check_write_permission_policy:
  "check_write_permission board None = PBool False
   \<and> (u \<noteq> Map.empty \<longrightarrow>
        (board ''can_write'' = Some (PStr ''all'') \<longrightarrow>
           check_write_permission board (Some u) = PBool True)
      \<and> (board ''can_write'' = Some (PStr ''member'') \<longrightarrow>
           check_write_permission board (Some u) = PBool True)
      \<and> (board ''can_write'' = Some (PStr ''admin'') \<longrightarrow>
           truthy (check_write_permission board (Some u)) =
             truthy (dict_get u ''is_admin'' (PBool False))))"
  by (simp add: check_write_permission_def dict_get_def)

theorem check_write_permission_policy_witness:
  "check_write_permission [''can_write'' \<mapsto> PStr ''all''] None = PBool False
   \<and> check_write_permission [''can_write'' \<mapsto> PStr ''all'']
        (Some [''id'' \<mapsto> PStr ''u1'', ''is_admin'' \<mapsto> PBool False]) = PBool True
   \<and> check_write_permission [''can_write'' \<mapsto> PStr ''member'']
        (Some [''id'' \<mapsto> PStr ''u1'', ''is_admin'' \<mapsto> PBool False]) = PBool True
   \<and> truthy (check_write_permission [''can_write'' \<mapsto> PStr ''admin'']
        (Some [''id'' \<mapsto> PStr ''u2'', ''is_admin'' \<mapsto> PBool True]))
   \<and> \<not> truthy (check_write_permission [''can_write'' \<mapsto> PStr ''admin'']
        (Some [''id'' \<mapsto> PStr ''u1'', ''is_admin'' \<mapsto> PBool False]))"
  using
    check_write_permission_policy [of "[''can_write'' \<mapsto> PStr ''all'']"
      "[''id'' \<mapsto> PStr ''u1'', ''is_admin'' \<mapsto> PBool False]"]
    check_write_permission_policy [of "[''can_write'' \<mapsto> PStr ''member'']"
      "[''id'' \<mapsto> PStr ''u1'', ''is_admin'' \<mapsto> PBool False]"]
    check_write_permission_policy [of "[''can_write'' \<mapsto> PStr ''admin'']"
      "[''id'' \<mapsto> PStr ''u2'', ''is_admin'' \<mapsto> PBool True]"]
    check_write_permission_policy [of "[''can_write'' \<mapsto> PStr ''admin'']"
      "[''id'' \<mapsto> PStr ''u1'', ''is_admin'' \<mapsto> PBool False]"]
  by (simp add: dict_get_def)

text \<open>
  Claim C10. A board without the key \<^verbatim>\<open>can_read\<close> is read as if its policy were
  \<^verbatim>\<open>all\<close>: every caller, anonymous or not, may read. A board without the key
  \<^verbatim>\<open>can_write\<close> is written as if its policy were \<^verbatim>\<open>member\<close>: the result is true exactly
  for the callers that pass the identity test of the function (\<^verbatim>\<open>if not user\<close>).
\<close>

theorem missing_policy_defaults_open:
  "(board ''can_read'' = None \<longrightarrow>
      check_read_permission board user =
        check_read_permission (board(''can_read'' \<mapsto> PStr ''all'')) user
      \<and> check_read_permission board user = PBool True)
   \<and> (board ''can_write'' = None \<longrightarrow>
      check_write_permission board user =
        check_write_permission (board(''can_write'' \<mapsto> PStr ''member'')) user
      \<and> check_write_permission board user = PBool (\<not> not_dict user))"
  by (cases user) (simp_all add: check_read_permission_def check_write_permission_def dict_get_def)

theorem missing_policy_defaults_open_witness:
  "check_read_permission [''slug'' \<mapsto> PStr ''free''] None = PBool True
   \<and> check_write_permission [''slug'' \<mapsto> PStr ''free''] None = PBool False
   \<and> check_write_permission [''slug'' \<mapsto> PStr ''free'']
        (Some [''id'' \<mapsto> PStr ''u1'', ''is_admin'' \<mapsto> PBool False]) = PBool True"
  using
    missing_policy_defaults_open [of "[''slug'' \<mapsto> PStr ''free'']" None]
    missing_policy_defaults_open [of "[''slug'' \<mapsto> PStr ''free'']"
      "Some [''id'' \<mapsto> PStr ''u1'', ''is_admin'' \<mapsto> PBool False]"]
  by (simp add: check_read_permission_def check_write_permission_def dict_get_def)

section \<open>Properties of the session identity resolver\<close>

lemma get_current_user_token:
  "cookies ''access_token'' = Some token \<Longrightarrow> token \<noteq> [] \<Longrightarrow>
   get_current_user jwt_decode users_single cookies =
     (case jwt_decode token of
        Inl e \<Rightarrow> Inr None
      | Inr payload \<Rightarrow>
          if \<not> truthy (dict_get payload ''sub'' PNone) then Inr None
          else (case users_single (dict_get payload ''sub'' PNone) of
                  Inl e \<Rightarrow> Inr None
                | Inr data \<Rightarrow> if not_dict data then Inr None else Inr data))"
  by (simp add: get_current_user_def Let_def split: sum.splits)

lemma get_current_user_no_token:
  "cookies ''access_token'' = None \<or> cookies ''access_token'' = Some [] \<Longrightarrow>
   get_current_user jwt_decode users_single cookies = Inr None"
  by (auto simp: get_current_user_def)

text \<open>
  Claim C4, as stated, fails in its last part: a failure of the store does not reach the
  caller either. With a valid token whose lookup raises, the result is \<^verbatim>\<open>None\<close>.
\<close>

theorem get_current_user_store_failure:
  "get_current_user (jwt_accept [''sub'' \<mapsto> PStr ''u1'']) users_failing
     [''access_token'' \<mapsto> ''tok''] = Inr None"
  by (simp add: get_current_user_def jwt_accept_def users_failing_def dict_get_def)

text \<open>
  Claim C4, amended. \<open>get_current_user\<close> never raises to its caller. It returns
  \<^verbatim>\<open>None\<close> when the token is absent, when decoding it raises (a malformed or expired
  token, a bad signature), when no matching user record exists, and also when the lookup in
  the store raises. It returns a user \<open>u\<close> exactly when the token is present and not
  empty, decodes to claims with a truthy subject, and the store returns the non-empty
  record \<open>u\<close> for that subject.
\<close>

theorem get_current_user_never_raises:
  "(\<exists>r. get_current_user jwt_decode users_single cookies = Inr r)
   \<and> (cookies ''access_token'' = None \<longrightarrow>
        get_current_user jwt_decode users_single cookies = Inr None)
   \<and> (\<forall>token e. cookies ''access_token'' = Some token \<and> jwt_decode token = Inl e \<longrightarrow>
        get_current_user jwt_decode users_single cookies = Inr None)
   \<and> (\<forall>token payload. cookies ''access_token'' = Some token \<and> jwt_decode token = Inr payload
          \<and> users_single (dict_get payload ''sub'' PNone) = Inr None \<longrightarrow>
        get_current_user jwt_decode users_single cookies = Inr None)
   \<and> (\<forall>token payload e. cookies ''access_token'' = Some token \<and> jwt_decode token = Inr payload
          \<and> users_single (dict_get payload ''sub'' PNone) = Inl e \<longrightarrow>
        get_current_user jwt_decode users_single cookies = Inr None)
   \<and> (get_current_user jwt_decode users_single cookies = Inr (Some u)) =
       (\<exists>token payload. cookies ''access_token'' = Some token \<and> token \<noteq> []
          \<and> jwt_decode token = Inr payload
          \<and> truthy (dict_get payload ''sub'' PNone)
          \<and> users_single (dict_get payload ''sub'' PNone) = Inr (Some u)
          \<and> u \<noteq> Map.empty)"
proof (cases "cookies ''access_token'' = None \<or> cookies ''access_token'' = Some []")
  case True
  then have "get_current_user jwt_decode users_single cookies = Inr None"
    by (rule get_current_user_no_token)
  then show ?thesis using True by auto
next
  case False
  then obtain token where tok: "cookies ''access_token'' = Some token" "token \<noteq> []"
    by (cases "cookies ''access_token''") auto
  note run = get_current_user_token [where cookies = cookies and jwt_decode = jwt_decode
      and users_single = users_single, OF tok]
  show ?thesis
  proof (cases "jwt_decode token")
    case (Inl e)
    then show ?thesis using tok run by simp
  next
    case (Inr payload)
    show ?thesis
    proof (cases "truthy (dict_get payload ''sub'' PNone)")
      case False
      then show ?thesis using tok run Inr by simp
    next
      case True
      show ?thesis
      proof (cases "users_single (dict_get payload ''sub'' PNone)")
        case (Inl e)
        then show ?thesis using tok run Inr True by simp
      next
        case data: (Inr data)
        show ?thesis
        proof (cases data)
          case None
          then show ?thesis using tok run Inr True data by simp
        next
          case (Some d)
          then show ?thesis using tok run Inr True data by auto
        qed
      qed
    qed
  qed
qed

theorem get_current_user_never_raises_witness:
  "get_current_user jwt_reject (users_table Map.empty) Map.empty = Inr None
   \<and> get_current_user jwt_reject (users_table Map.empty) [''access_token'' \<mapsto> ''tok''] = Inr None
   \<and> get_current_user (jwt_accept [''sub'' \<mapsto> PStr ''u1'']) (users_table Map.empty)
        [''access_token'' \<mapsto> ''tok''] = Inr None
   \<and> get_current_user (jwt_accept [''sub'' \<mapsto> PStr ''u1'']) users_failing
        [''access_token'' \<mapsto> ''tok''] = Inr None
   \<and> get_current_user (jwt_accept [''sub'' \<mapsto> PStr ''u1''])
        (users_table [PStr ''u1'' \<mapsto> [''id'' \<mapsto> PStr ''u1'', ''is_admin'' \<mapsto> PBool False]])
        [''access_token'' \<mapsto> ''tok'']
      = Inr (Some [''id'' \<mapsto> PStr ''u1'', ''is_admin'' \<mapsto> PBool False])"
  using
    get_current_user_never_raises [of jwt_reject "users_table Map.empty" Map.empty]
    get_current_user_never_raises [of jwt_reject "users_table Map.empty"
      "[''access_token'' \<mapsto> ''tok'']"]
    get_current_user_never_raises [of "jwt_accept [''sub'' \<mapsto> PStr ''u1'']"
      "users_table Map.empty" "[''access_token'' \<mapsto> ''tok'']"]
    get_current_user_never_raises [of "jwt_accept [''sub'' \<mapsto> PStr ''u1'']"
      users_failing "[''access_token'' \<mapsto> ''tok'']"]
    get_current_user_never_raises [of "jwt_accept [''sub'' \<mapsto> PStr ''u1'']"
      "users_table [PStr ''u1'' \<mapsto> [''id'' \<mapsto> PStr ''u1'', ''is_admin'' \<mapsto> PBool False]]"
      "[''access_token'' \<mapsto> ''tok'']"
      "[''id'' \<mapsto> PStr ''u1'', ''is_admin'' \<mapsto> PBool False]"]
  by (simp add: get_current_user_def jwt_accept_def jwt_reject_def users_table_def
      users_failing_def dict_get_def)

section \<open>Properties of the comment service\<close>

lemma check_parent_reply:
  assumes "comments s pid = Some parent" and "comment_parent_id parent \<noteq> None" and "pid \<noteq> []"
  shows "check_parent strict s (Some pid) =
     Inl (if comment_is_active parent
          then HTTPException 400 ''Cannot reply to a reply (max 2 levels)''
          else if strict then APIError
          else HTTPException 404 ''Parent comment not found or deleted'')"
  using assms by (simp add: check_parent_def active_comment_def single_def)

lemma create_comment_try_parent_error:
  assumes "posts s post_id = Some post" and "post_is_active post"
    and "check_parent strict s parent_id = Inl e"
  shows "create_comment_try strict clean now new_id s post_id user content parent_id = (Inl e, s)"
  using assms by (simp add: create_comment_try_def active_post_def single_def)

text \<open>
  Claim C7. Let the post be active and let the parent comment, stored under the non-empty
  id \<open>pid\<close>, have a parent of its own. Then \<open>create_comment\<close> with \<open>parent_id = pid\<close>
  ends in an error and leaves the store as it was: nothing is inserted. The error is
  the status 400 (\<^verbatim>\<open>Cannot reply to a reply\<close>) when the parent comment is active; a
  deleted parent comment is not found, which is the status 404, or 500 when the store
  raises for the missing row.
\<close>

theorem create_comment_reply_to_reply_rejected:
  assumes "posts s post_id = Some post" and "post_is_active post"
    and "comments s pid = Some parent" and "comment_parent_id parent \<noteq> None"
    and "pid \<noteq> []"
  shows "create_comment strict clean now new_id s post_id user content (Some pid) =
     (Inl (if comment_is_active parent
           then HTTPException 400 ''Cannot reply to a reply (max 2 levels)''
           else if strict then HTTPException 500 ''Failed to create comment''
           else HTTPException 404 ''Parent comment not found or deleted''), s)"
proof -
  note parent = check_parent_reply [OF assms(3) assms(4) assms(5), of strict]
  note body = create_comment_try_parent_error [OF assms(1) assms(2) parent,
      of clean now new_id user content]
  show ?thesis
    by (simp add: create_comment_def body)
qed

theorem create_comment_reply_to_reply_rejected_witness:
  "create_comment True id ''2024-05-01T10:00:00+00:00'' ''c3''
     \<lparr> posts = [''p1'' \<mapsto>
          \<lparr> post_board_id = ''b1'', post_user_id = ''u1'', post_title = ''Hello'',
            post_content = None, post_view_count = 0, post_is_pinned = False,
            post_is_active = True \<rparr>],
       comments = [''c1'' \<mapsto>
          \<lparr> comment_post_id = ''p1'', comment_user_id = PStr ''u1'',
            comment_parent_id = None, comment_content = Some ''first'',
            comment_is_active = True, comment_created_at = ''t1'',
            comment_updated_at = ''t1'' \<rparr>,
          ''c2'' \<mapsto>
          \<lparr> comment_post_id = ''p1'', comment_user_id = PStr ''u2'',
            comment_parent_id = Some ''c1'', comment_content = Some ''reply'',
            comment_is_active = True, comment_created_at = ''t2'',
            comment_updated_at = ''t2'' \<rparr>] \<rparr>
     ''p1'' [''id'' \<mapsto> PStr ''u1''] ''reply to the reply'' (Some ''c2'')
   = (Inl (HTTPException 400 ''Cannot reply to a reply (max 2 levels)''),
     \<lparr> posts = [''p1'' \<mapsto>
          \<lparr> post_board_id = ''b1'', post_user_id = ''u1'', post_title = ''Hello'',
            post_content = None, post_view_count = 0, post_is_pinned = False,
            post_is_active = True \<rparr>],
       comments = [''c1'' \<mapsto>
          \<lparr> comment_post_id = ''p1'', comment_user_id = PStr ''u1'',
            comment_parent_id = None, comment_content = Some ''first'',
            comment_is_active = True, comment_created_at = ''t1'',
            comment_updated_at = ''t1'' \<rparr>,
          ''c2'' \<mapsto>
          \<lparr> comment_post_id = ''p1'', comment_user_id = PStr ''u2'',
            comment_parent_id = Some ''c1'', comment_content = Some ''reply'',
            comment_is_active = True, comment_created_at = ''t2'',
            comment_updated_at = ''t2'' \<rparr>] \<rparr>)"
  by (rule create_comment_reply_to_reply_rejected [where
        post = "\<lparr> post_board_id = ''b1'', post_user_id = ''u1'', post_title = ''Hello'',
            post_content = None, post_view_count = 0, post_is_pinned = False,
            post_is_active = True \<rparr>" and
        parent = "\<lparr> comment_post_id = ''p1'', comment_user_id = PStr ''u2'',
            comment_parent_id = Some ''c1'', comment_content = Some ''reply'',
            comment_is_active = True, comment_created_at = ''t2'',
            comment_updated_at = ''t2'' \<rparr>", simplified]) simp_all

end
